theory Spec2Isabelle
  imports Complex_Main "HOL-Library.Sublist"
begin

section \<open>The BigQuery writer entry point\<close>

text \<open>
  A shallow embedding of \<^verbatim>\<open>handle_invoice_extracted\<close> in
  \<^verbatim>\<open>functions/bigquery_writer/main.py\<close> and of its helpers \<^verbatim>\<open>_write_failure_to_bucket\<close>,
  \<^verbatim>\<open>_create_error_record\<close>, \<^verbatim>\<open>_generate_remediation_hints\<close> and
  \<^verbatim>\<open>_generate_error_filename\<close>.

  Python \<^verbatim>\<open>str\<close> values are modelled as \<^typ>\<open>string\<close>, so the characters range over
  Isabelle's 8-bit \<^typ>\<open>char\<close>; in that range the regular expression class \<^verbatim>\<open>\d\<close>
  matches exactly the ten ASCII digits. \<^verbatim>\<open>pathlib.Path\<close> is the POSIX flavour
  (the function runs on Cloud Run) with the \<^verbatim>\<open>stem\<close> of CPython 3.8 to 3.13.
  An exception is a value; the exceptions modelled are the ones \<^verbatim>\<open>except Exception\<close>
  catches. The calls of \<^verbatim>\<open>logger\<close> are recorded and taken not to raise.
\<close>

subsection \<open>Strings\<close>

definition newline :: char where
  "newline = CHR 0x0A"

definition apostrophe :: char where
  "apostrophe = CHR 0x27"

text \<open>\<^verbatim>\<open>sub in s\<close> on Python strings: \<open>sub\<close> occurs in \<open>s\<close> as a contiguous block.\<close>

definition py_in :: "string \<Rightarrow> string \<Rightarrow> bool" where
  "py_in sub s = sublist sub s"

text \<open>\<^verbatim>\<open>sep.join(parts)\<close>.\<close>

fun py_join :: "string \<Rightarrow> string list \<Rightarrow> string" where
  "py_join sep [] = []"
| "py_join sep [x] = x"
| "py_join sep (x # y # ys) = x @ sep @ py_join sep (y # ys)"

text \<open>\<^verbatim>\<open>s.split(sep)\<close> for a one-character separator: the fields between the separators,
  empty fields included.\<close>

fun py_split :: "char \<Rightarrow> string \<Rightarrow> string list" where
  "py_split sep [] = [[]]"
| "py_split sep (c # cs) =
     (if c = sep then [] # py_split sep cs
      else (case py_split sep cs of
              [] \<Rightarrow> [[c]]
            | f # fs \<Rightarrow> (c # f) # fs))"

text \<open>\<^verbatim>\<open>s.rfind(c)\<close>: the index of the last occurrence, \<open>None\<close> standing for Python's -1.\<close>

fun py_rfind :: "char \<Rightarrow> string \<Rightarrow> nat option" where
  "py_rfind c [] = None"
| "py_rfind c (x # xs) =
     (case py_rfind c xs of
        Some i \<Rightarrow> Some (Suc i)
      | None \<Rightarrow> (if x = c then Some 0 else None))"

text \<open>Decimal rendering of numbers: \<^verbatim>\<open>str(n)\<close> for an int, and the zero-padded fields of
  \<^verbatim>\<open>strftime\<close> and \<^verbatim>\<open>isoformat\<close>.\<close>

definition digit_char :: "nat \<Rightarrow> char" where
  "digit_char d = char_of (48 + d)"

function str_nat :: "nat \<Rightarrow> string" where
  "str_nat n =
     (if n < 10 then [digit_char n]
      else str_nat (n div 10) @ [digit_char (n mod 10)])"
  by pat_completeness auto
termination
  by (relation "measure id") auto

declare str_nat.simps [simp del]

definition str_int :: "int \<Rightarrow> string" where
  "str_int i = (if i < 0 then CHR ''-'' # str_nat (nat (- i)) else str_nat (nat i))"

definition zero_pad :: "nat \<Rightarrow> nat \<Rightarrow> string" where
  "zero_pad w n = replicate (w - length (str_nat n)) CHR ''0'' @ str_nat n"

subsection \<open>pathlib: the stem of a POSIX path\<close>

text \<open>
  \<^verbatim>\<open>Path(s).name\<close>: the path is split at \<^verbatim>\<open>/\<close>, empty components and \<^verbatim>\<open>.\<close> components are
  dropped, and the name is the last component left (the empty string when none is).
\<close>

definition path_name :: "string \<Rightarrow> string" where
  "path_name s =
     (let parts = filter (\<lambda>x. x \<noteq> [] \<and> x \<noteq> ''.'') (py_split CHR ''/'' s)
      in if parts = [] then [] else last parts)"

text \<open>
  \<^verbatim>\<open>Path(s).stem\<close>:
  \<^verbatim>\<open>i = name.rfind('.'); return name[:i] if 0 < i < len(name) - 1 else name\<close>.
\<close>

definition path_stem :: "string \<Rightarrow> string" where
  "path_stem s =
     (let name = path_name s
      in case py_rfind CHR ''.'' name of
           Some i \<Rightarrow> (if 0 < i \<and> i + 1 < length name then take i name else name)
         | None \<Rightarrow> name)"

subsection \<open>The page suffix pattern\<close>

definition is_digit :: "char \<Rightarrow> bool" where
  "is_digit c = (c \<in> set ''0123456789'')"

text \<open>
  The pattern matched at the start of \<open>s\<close>: the literal \<^verbatim>\<open>_page\<close>, then \<^verbatim>\<open>\d+\<close>, then \<^verbatim>\<open>$\<close>.
  Without \<^verbatim>\<open>re.MULTILINE\<close>, Python's \<^verbatim>\<open>$\<close> matches at the end of the string and also just
  before a newline that is the last character of the string. \<^verbatim>\<open>\d+\<close> is greedy; giving
  digits back never helps, because the position after fewer digits is followed by a digit.
  The result is what follows the match: nothing, or the final newline.
\<close>

definition match_page :: "string \<Rightarrow> string option" where
  "match_page s =
     (if prefix ''_page'' s then
        (let r = drop 5 s; ds = takeWhile is_digit r; rest = dropWhile is_digit r
         in if ds \<noteq> [] \<and> (rest = [] \<or> rest = [newline]) then Some rest else None)
      else None)"

text \<open>
  \<^verbatim>\<open>re.sub\<close> scans from the left and replaces the matches by the empty string. After a
  match only the empty string or one newline is left, where the pattern cannot match again.
\<close>

fun re_sub_page :: "string \<Rightarrow> string" where
  "re_sub_page [] = []"
| "re_sub_page (c # cs) =
     (case match_page (c # cs) of
        Some rest \<Rightarrow> rest
      | None \<Rightarrow> c # re_sub_page cs)"

subsection \<open>Clock readings\<close>

record datetime =
  year :: nat
  month :: nat
  day :: nat
  hour :: nat
  minute :: nat
  second :: nat
  microsecond :: nat

text \<open>\<^verbatim>\<open>strftime("%Y%m%d_%H%M%S")\<close>, for the four-digit years a clock reads.\<close>

definition strftime_YmdHMS :: "datetime \<Rightarrow> string" where
  "strftime_YmdHMS t =
     zero_pad 4 (year t) @ zero_pad 2 (month t) @ zero_pad 2 (day t) @ ''_'' @
     zero_pad 2 (hour t) @ zero_pad 2 (minute t) @ zero_pad 2 (second t)"

text \<open>\<^verbatim>\<open>isoformat()\<close> of a reading taken with \<^verbatim>\<open>datetime.now(timezone.utc)\<close>.\<close>

definition isoformat :: "datetime \<Rightarrow> string" where
  "isoformat t =
     zero_pad 4 (year t) @ ''-'' @ zero_pad 2 (month t) @ ''-'' @ zero_pad 2 (day t) @ ''T'' @
     zero_pad 2 (hour t) @ '':'' @ zero_pad 2 (minute t) @ '':'' @ zero_pad 2 (second t) @
     (if microsecond t = 0 then [] else ''.'' @ zero_pad 6 (microsecond t)) @ ''+00:00''"

subsection \<open>The error file name\<close>

text \<open>
  The truth value of a string is its being non-empty. The third argument is the reading
  \<^verbatim>\<open>datetime.now()\<close> returns when the function gets that far.
\<close>

definition generate_error_filename :: "string \<Rightarrow> string \<Rightarrow> datetime \<Rightarrow> string" where
  "generate_error_filename source_file invoice_id now =
     (if source_file \<noteq> [] \<and> source_file \<noteq> ''unknown'' then
        (let base_name = path_stem source_file;
             base_name = re_sub_page base_name
         in base_name @ ''.error.json'')
      else if invoice_id \<noteq> [] \<and> invoice_id \<noteq> ''unknown'' then
        invoice_id @ ''.error.json''
      else
        (let timestamp = strftime_YmdHMS now
         in ''unknown_'' @ timestamp @ ''.error.json''))"

subsection \<open>Exceptions and payloads\<close>

text \<open>
  One entry of pydantic's \<^verbatim>\<open>ValidationError.errors()\<close>: the location (field names and
  list indices), the error type string, the message, and \<^verbatim>\<open>str(err.get("input", ""))\<close>.
\<close>

datatype loc_item = LocStr string | LocInt int

record error_detail =
  loc :: "loc_item list"
  err_type :: string
  msg :: string
  input_str :: string

text \<open>
  An exception \<open>e\<close> that \<^verbatim>\<open>except Exception\<close> catches: pydantic's \<^verbatim>\<open>ValidationError\<close> with
  its entries and its \<^verbatim>\<open>str(e)\<close>, or any other exception with \<^verbatim>\<open>type(e).__name__\<close> and
  \<^verbatim>\<open>str(e)\<close>.
\<close>

datatype py_exception =
    ValidationError "error_detail list" string
  | OtherException string string

definition RuntimeError :: "string \<Rightarrow> py_exception" where
  "RuntimeError m = OtherException ''RuntimeError'' m"

fun type_name :: "py_exception \<Rightarrow> string" where
  "type_name (ValidationError errs s) = ''ValidationError''"
| "type_name (OtherException n s) = n"

fun str_exception :: "py_exception \<Rightarrow> string" where
  "str_exception (ValidationError errs s) = s"
| "str_exception (OtherException n s) = s"

fun is_ValidationError :: "py_exception \<Rightarrow> bool" where
  "is_ValidationError (ValidationError errs s) = True"
| "is_ValidationError (OtherException n s) = False"

text \<open>JSON values: what \<^verbatim>\<open>json.loads\<close> returns and what \<^verbatim>\<open>extracted_data\<close> holds.\<close>

datatype json =
    JNull
  | JBool bool
  | JInt int
  | JFloat real
  | JStr string
  | JArr "json list"
  | JObj "(string \<times> json) list"

text \<open>The \<^verbatim>\<open>VendorType\<close> enum of \<^verbatim>\<open>shared.schemas\<close>, by the \<^verbatim>\<open>.value\<close> of its member.\<close>

datatype vendor_type = VendorType (vendor_value: string)

text \<open>\<^verbatim>\<open>InvoiceExtractedMessage\<close>, \<^verbatim>\<open>ExtractedInvoice\<close> and the persister's result.\<close>

record message =
  msg_source_file :: string
  msg_vendor_type :: vendor_type
  msg_extraction_model :: string
  msg_extraction_latency_ms :: int
  msg_confidence_score :: real
  msg_extracted_data :: json

record invoice =
  inv_invoice_id :: string
  inv_vendor_type :: vendor_type
  inv_line_items :: "json list"
  inv_total_amount :: real

record write_result =
  wr_success :: bool
  wr_is_duplicate :: bool
  wr_rows_written :: int
  wr_error :: "string option"

text \<open>An optional string inside an f-string: \<^verbatim>\<open>None\<close> is rendered as \<^verbatim>\<open>None\<close>.\<close>

fun format_optional :: "string option \<Rightarrow> string" where
  "format_optional None = ''None''"
| "format_optional (Some s) = s"

subsection \<open>Remediation hints\<close>

text \<open>\<^verbatim>\<open>".".join(str(loc) for loc in err["loc"])\<close>.\<close>

fun str_loc :: "loc_item \<Rightarrow> string" where
  "str_loc (LocStr s) = s"
| "str_loc (LocInt i) = str_int i"

definition field_of :: "error_detail \<Rightarrow> string" where
  "field_of err = py_join ''.'' (map str_loc (loc err))"

definition numeric_hint :: "string \<Rightarrow> string" where
  "numeric_hint field =
     ''Field '' @ [apostrophe] @ field @ [apostrophe] @ '' has numeric constraint violation. '' @
     ''Check if this is a discount/credit that should be handled differently.''"

definition missing_hint :: "string \<Rightarrow> string" where
  "missing_hint field =
     ''Required field '' @ [apostrophe] @ field @ [apostrophe] @ '' is missing. '' @
     ''Review extraction prompt for this field.''"

definition type_hint :: "string \<Rightarrow> string" where
  "type_hint field =
     ''Field '' @ [apostrophe] @ field @ [apostrophe] @ '' has wrong type. '' @
     ''Check LLM output format for this field.''"

definition generic_hint :: string where
  "generic_hint = ''Manual review required - error pattern not recognized.''"

text \<open>The body of the \<^verbatim>\<open>for err in error.errors()\<close> loop, on the list \<open>hints\<close> built so far.\<close>

definition hints_step :: "error_detail \<Rightarrow> string list \<Rightarrow> string list" where
  "hints_step err hints =
     (let field = field_of err; error_type = err_type err
      in if py_in ''greater_than'' error_type \<or> py_in ''less_than'' error_type then
           hints @ [numeric_hint field]
         else if py_in ''missing'' error_type then
           hints @ [missing_hint field]
         else if py_in ''string_type'' error_type \<or> py_in ''type_error'' error_type then
           hints @ [type_hint field]
         else hints)"

fun hints_loop :: "error_detail list \<Rightarrow> string list \<Rightarrow> string list" where
  "hints_loop [] hints = hints"
| "hints_loop (err # errs) hints = hints_loop errs (hints_step err hints)"

definition generate_remediation_hints :: "py_exception \<Rightarrow> string list" where
  "generate_remediation_hints error =
     (let hints = [];
          hints = (case error of
                     ValidationError errs s \<Rightarrow> hints_loop errs hints
                   | OtherException n s \<Rightarrow> hints)
      in if hints = [] then hints @ [generic_hint] else hints)"

subsection \<open>The error record\<close>

record validation_entry =
  ve_field :: string
  ve_type :: string
  ve_message :: string
  ve_input :: string

record validation_details =
  error_count :: nat
  errors :: "validation_entry list"

record error_metadata =
  timestamp :: string
  failed_stage :: string
  error_type :: string
  error_message :: string
  is_validation_error :: bool
  validation_details :: "validation_details option"

record invoice_context =
  source_file :: string
  invoice_id :: string
  vendor_type :: string
  extraction_model :: string
  confidence_score :: real

record error_record =
  error_metadata :: error_metadata
  invoice_context :: invoice_context
  extracted_data :: json
  raw_message :: json
  remediation_hints :: "string list"

definition validation_entry_of :: "error_detail \<Rightarrow> validation_entry" where
  "validation_entry_of err =
     \<lparr>ve_field = py_join ''.'' (map str_loc (loc err)),
      ve_type = err_type err,
      ve_message = msg err,
      ve_input = take 200 (input_str err)\<rparr>"

text \<open>
  \<^verbatim>\<open>error.error_count()\<close> is the number of entries of \<^verbatim>\<open>error.errors()\<close>. A parsed message
  is a pydantic model object, which is always true in \<^verbatim>\<open>if message:\<close>.
\<close>

definition create_error_record ::
  "string \<Rightarrow> string \<Rightarrow> py_exception \<Rightarrow> json \<Rightarrow> message option \<Rightarrow> datetime \<Rightarrow> error_record" where
  "create_error_record src inv_id error raw m ts =
     (let details =
            (case error of
               ValidationError errs s \<Rightarrow>
                 Some \<lparr>error_count = length errs, errors = map validation_entry_of errs\<rparr>
             | OtherException n s \<Rightarrow> None);
          vendor = (case m of Some mm \<Rightarrow> vendor_value (msg_vendor_type mm) | None \<Rightarrow> ''unknown'');
          model = (case m of Some mm \<Rightarrow> msg_extraction_model mm | None \<Rightarrow> ''unknown'');
          confidence = (case m of Some mm \<Rightarrow> msg_confidence_score mm | None \<Rightarrow> 0);
          extracted = (case m of Some mm \<Rightarrow> msg_extracted_data mm | None \<Rightarrow> JObj [])
      in \<lparr>error_metadata =
            \<lparr>timestamp = isoformat ts,
             failed_stage = ''bigquery-writer'',
             error_type = type_name error,
             error_message = str_exception error,
             is_validation_error = is_ValidationError error,
             validation_details = details\<rparr>,
          invoice_context =
            \<lparr>source_file = src,
             invoice_id = inv_id,
             vendor_type = vendor,
             extraction_model = model,
             confidence_score = confidence\<rparr>,
          extracted_data = extracted,
          raw_message = raw,
          remediation_hints = generate_remediation_hints error\<rparr>)"

subsection \<open>Configuration, collaborators and observable events\<close>

record config =
  project_id :: string
  dataset :: string
  invoices_table :: string
  line_items_table :: string
  metrics_table :: string
  failed_bucket :: string

record cloud_event =
  data :: json

text \<open>The keyword arguments of the call to \<^verbatim>\<open>write_invoice_to_bigquery\<close>.\<close>

record write_args =
  wa_invoice :: invoice
  wa_dataset :: string
  wa_invoices_table :: string
  wa_line_items_table :: string
  wa_source_file :: string
  wa_extraction_model :: string
  wa_extraction_latency_ms :: int
  wa_confidence_score :: real

text \<open>
  The keyword arguments of a call to \<^verbatim>\<open>write_extraction_metrics\<close>. The vendor type is the
  enum member of the parsed message on one path and the plain string \<^verbatim>\<open>"other"\<close> on the
  other; \<open>ma_error_message\<close> is \<open>None\<close> where the call does not pass \<^verbatim>\<open>error_message\<close>.
\<close>

datatype vendor_arg = VendorMember vendor_type | VendorString string

record metrics_args =
  ma_dataset :: string
  ma_metrics_table :: string
  ma_invoice_id :: string
  ma_vendor_type :: vendor_arg
  ma_source_file :: string
  ma_extraction_model :: string
  ma_extraction_latency_ms :: int
  ma_confidence_score :: real
  ma_success :: bool
  ma_error_message :: "string option"

text \<open>
  The code outside main.py that the entry point calls, each call with its outcome: a
  raised exception (\<open>Inl e\<close>, or \<open>Some e\<close> where the call returns nothing) or a returned
  value. \<open>decode_message_data\<close> stands for the two lines
  \<^verbatim>\<open>base64.b64decode(cloud_event.data["message"]["data"])\<close> and \<^verbatim>\<open>json.loads(message_data)\<close>;
  \<open>now_utc\<close> and \<open>now_local\<close> are the readings of \<^verbatim>\<open>datetime.now(timezone.utc)\<close> and
  \<^verbatim>\<open>datetime.now()\<close>; \<open>json_dumps\<close> is \<^verbatim>\<open>json.dumps(error_record, indent=2, default=str)\<close>
  followed by \<^verbatim>\<open>.encode("utf-8")\<close>; \<open>storage_write\<close> takes bucket, path and data.
\<close>

record collaborators =
  get_config :: "py_exception + config"
  GCPBigQueryAdapter :: "string \<Rightarrow> py_exception option"
  decode_message_data :: "cloud_event \<Rightarrow> py_exception + json"
  message_model_validate :: "json \<Rightarrow> py_exception + message"
  invoice_model_validate :: "json \<Rightarrow> py_exception + invoice"
  write_invoice_to_bigquery :: "write_args \<Rightarrow> py_exception + write_result"
  write_extraction_metrics :: "metrics_args \<Rightarrow> py_exception option"
  GCSAdapter :: "string \<Rightarrow> py_exception option"
  now_utc :: datetime
  now_local :: datetime
  json_dumps :: "error_record \<Rightarrow> py_exception + string"
  storage_write :: "string \<Rightarrow> string \<Rightarrow> string \<Rightarrow> py_exception + string"

text \<open>What one invocation does to the outside, in order: every call of a collaborator
  inside the handler's \<^verbatim>\<open>try\<close> blocks with its outcome, and every log line.\<close>

datatype log_call = LogInfo | LogError | LogException

datatype event =
    Decode "py_exception + json"
  | ValidateMessage "py_exception + message"
  | ValidateInvoice "py_exception + invoice"
  | WriteInvoice write_args "py_exception + write_result"
  | WriteMetrics metrics_args "py_exception option"
  | NewStorage "py_exception option"
  | BucketWrite string string string "py_exception + string"
  | Log log_call string

datatype outcome = Returned | Raised py_exception

subsection \<open>The handler: the try block\<close>

text \<open>
  The local variables the \<^verbatim>\<open>except\<close> block reads. \<open>l_raw_message\<close> and \<open>l_message\<close> are
  \<open>None\<close> while the name is unbound, which is what \<^verbatim>\<open>"message" in dir()\<close> tests.
\<close>

record locals =
  l_source_file :: string
  l_invoice_id :: string
  l_raw_message :: "json option"
  l_message :: "message option"

definition initial_locals :: locals where
  "initial_locals =
     \<lparr>l_source_file = ''unknown'', l_invoice_id = ''unknown'',
      l_raw_message = None, l_message = None\<rparr>"

definition write_args_of :: "config \<Rightarrow> message \<Rightarrow> invoice \<Rightarrow> string \<Rightarrow> write_args" where
  "write_args_of cfg m invoice src =
     \<lparr>wa_invoice = invoice,
      wa_dataset = dataset cfg,
      wa_invoices_table = invoices_table cfg,
      wa_line_items_table = line_items_table cfg,
      wa_source_file = src,
      wa_extraction_model = msg_extraction_model m,
      wa_extraction_latency_ms = msg_extraction_latency_ms m,
      wa_confidence_score = msg_confidence_score m\<rparr>"

definition success_metrics_args :: "config \<Rightarrow> message \<Rightarrow> string \<Rightarrow> string \<Rightarrow> metrics_args" where
  "success_metrics_args cfg m inv_id src =
     \<lparr>ma_dataset = dataset cfg,
      ma_metrics_table = metrics_table cfg,
      ma_invoice_id = inv_id,
      ma_vendor_type = VendorMember (msg_vendor_type m),
      ma_source_file = src,
      ma_extraction_model = msg_extraction_model m,
      ma_extraction_latency_ms = msg_extraction_latency_ms m,
      ma_confidence_score = msg_confidence_score m,
      ma_success = True,
      ma_error_message = None\<rparr>"

text \<open>
  Lines 98 to 151, once message and invoice are validated: the persister is called; a
  result with \<^verbatim>\<open>success\<close> false is logged and turned into a \<^verbatim>\<open>RuntimeError\<close>; otherwise the
  success metrics are written and one of two lines is logged. The result is the exception
  that leaves the \<^verbatim>\<open>try\<close> block, if any, and the events.
\<close>

definition persist_and_record ::
  "collaborators \<Rightarrow> config \<Rightarrow> message \<Rightarrow> invoice \<Rightarrow> py_exception option \<times> event list" where
  "persist_and_record cb cfg m invoice =
     (let src = msg_source_file m;
          inv_id = inv_invoice_id invoice;
          wargs = write_args_of cfg m invoice src
      in case write_invoice_to_bigquery cb wargs of
           Inl e \<Rightarrow> (Some e, [WriteInvoice wargs (Inl e)])
         | Inr result \<Rightarrow>
             if \<not> wr_success result then
               (Some (RuntimeError (''BigQuery write failed: '' @ format_optional (wr_error result))),
                [WriteInvoice wargs (Inr result), Log LogError ''BigQuery write failed''])
             else
               (let margs = success_metrics_args cfg m inv_id src
                in case write_extraction_metrics cb margs of
                     Some e \<Rightarrow>
                       (Some e, [WriteInvoice wargs (Inr result), WriteMetrics margs (Some e)])
                   | None \<Rightarrow>
                       (None,
                        [WriteInvoice wargs (Inr result), WriteMetrics margs None,
                         Log LogInfo
                           (if wr_is_duplicate result then ''Duplicate invoice - no action taken''
                            else ''Invoice persisted to BigQuery'')])))"

text \<open>
  Lines 69 to 151. Each stage that raises ends the block with the locals bound so far.
\<close>

definition try_block ::
  "collaborators \<Rightarrow> config \<Rightarrow> cloud_event \<Rightarrow> py_exception option \<times> locals \<times> event list" where
  "try_block cb cfg ev =
     (case decode_message_data cb ev of
        Inl e \<Rightarrow> (Some e, initial_locals, [Decode (Inl e)])
      | Inr raw \<Rightarrow>
          (let l1 = initial_locals\<lparr>l_raw_message := Some raw\<rparr>
           in case message_model_validate cb raw of
                Inl e \<Rightarrow> (Some e, l1, [Decode (Inr raw), ValidateMessage (Inl e)])
              | Inr m \<Rightarrow>
                  (let l2 = l1\<lparr>l_message := Some m, l_source_file := msg_source_file m\<rparr>;
                       t2 = [Decode (Inr raw), ValidateMessage (Inr m),
                             Log LogInfo ''Processing extracted invoice'']
                   in case invoice_model_validate cb (msg_extracted_data m) of
                        Inl e \<Rightarrow> (Some e, l2, t2 @ [ValidateInvoice (Inl e)])
                      | Inr invoice \<Rightarrow>
                          (let l3 = l2\<lparr>l_invoice_id := inv_invoice_id invoice\<rparr>;
                               t3 = t2 @ [ValidateInvoice (Inr invoice),
                                          Log LogInfo ''Invoice re-validated successfully''];
                               (exc, t4) = persist_and_record cb cfg m invoice
                           in (exc, l3, t3 @ t4)))))"

subsection \<open>Writing the failure to the bucket\<close>

definition write_failure_to_bucket ::
  "collaborators \<Rightarrow> config \<Rightarrow> string \<Rightarrow> string \<Rightarrow> py_exception \<Rightarrow> json \<Rightarrow> message option
     \<Rightarrow> (py_exception + string) \<times> event list" where
  "write_failure_to_bucket cb cfg src inv_id error raw m =
     (case GCSAdapter cb (project_id cfg) of
        Some e \<Rightarrow> (Inl e, [NewStorage (Some e)])
      | None \<Rightarrow>
          (let ts = now_utc cb;
               error_rec = create_error_record src inv_id error raw m ts;
               error_filename = generate_error_filename src inv_id (now_local cb)
           in case json_dumps cb error_rec of
                Inl e \<Rightarrow> (Inl e, [NewStorage None])
              | Inr error_json \<Rightarrow>
                  (let gcs_uri = storage_write cb (failed_bucket cfg) error_filename error_json
                   in (gcs_uri,
                       [NewStorage None,
                        BucketWrite (failed_bucket cfg) error_filename error_json gcs_uri]))))"

subsection \<open>The handler: the except block and the whole function\<close>

definition failure_metrics_args :: "config \<Rightarrow> py_exception \<Rightarrow> locals \<Rightarrow> metrics_args" where
  "failure_metrics_args cfg e l =
     \<lparr>ma_dataset = dataset cfg,
      ma_metrics_table = metrics_table cfg,
      ma_invoice_id = l_invoice_id l,
      ma_vendor_type =
        (case l_message l of
           Some m \<Rightarrow> VendorMember (msg_vendor_type m)
         | None \<Rightarrow> VendorString ''other''),
      ma_source_file = l_source_file l,
      ma_extraction_model =
        (case l_message l of Some m \<Rightarrow> msg_extraction_model m | None \<Rightarrow> ''unknown''),
      ma_extraction_latency_ms =
        (case l_message l of Some m \<Rightarrow> msg_extraction_latency_ms m | None \<Rightarrow> 0),
      ma_confidence_score = 0,
      ma_success = False,
      ma_error_message = Some (str_exception e)\<rparr>"

text \<open>
  Lines 153 to 208. The exception of the metrics call is dropped by \<^verbatim>\<open>except Exception: pass\<close>;
  the one of \<^verbatim>\<open>_write_failure_to_bucket\<close> is logged. Nothing is raised again.
\<close>

definition except_block :: "collaborators \<Rightarrow> config \<Rightarrow> py_exception \<Rightarrow> locals \<Rightarrow> event list" where
  "except_block cb cfg e l =
     (let margs = failure_metrics_args cfg e l;
          t1 = [Log LogException ''BigQuery write processing failed'',
                WriteMetrics margs (write_extraction_metrics cb margs)];
          raw = (case l_raw_message l of Some r \<Rightarrow> r | None \<Rightarrow> JObj []);
          (res, t2) = write_failure_to_bucket cb cfg (l_source_file l) (l_invoice_id l) e raw
                        (l_message l)
      in case res of
           Inr uri \<Rightarrow>
             t1 @ t2 @ [Log LogInfo ''Failed invoice written to failed bucket - message acknowledged'']
         | Inl write_error \<Rightarrow>
             t1 @ t2 @ [Log LogError ''Failed to write error file to bucket''])"

text \<open>
  The handler: \<^verbatim>\<open>get_config()\<close> and the adapter's constructor run before the \<^verbatim>\<open>try\<close>.
\<close>

definition handle_invoice_extracted :: "collaborators \<Rightarrow> cloud_event \<Rightarrow> outcome \<times> event list" where
  "handle_invoice_extracted cb ev =
     (case get_config cb of
        Inl e \<Rightarrow> (Raised e, [])
      | Inr cfg \<Rightarrow>
          (case GCPBigQueryAdapter cb (project_id cfg) of
             Some e \<Rightarrow> (Raised e, [])
           | None \<Rightarrow>
               (let (exc, l, t) = try_block cb cfg ev
                in case exc of
                     None \<Rightarrow> (Returned, t)
                   | Some e \<Rightarrow> (Returned, t @ except_block cb cfg e l))))"

subsection \<open>Reading a trace\<close>

definition outcome_of :: "collaborators \<Rightarrow> cloud_event \<Rightarrow> outcome" where
  "outcome_of cb ev = fst (handle_invoice_extracted cb ev)"

definition trace_of :: "collaborators \<Rightarrow> cloud_event \<Rightarrow> event list" where
  "trace_of cb ev = snd (handle_invoice_extracted cb ev)"

fun is_WriteInvoice :: "event \<Rightarrow> bool" where
  "is_WriteInvoice (WriteInvoice a r) = True"
| "is_WriteInvoice ev = False"

fun is_NewStorage :: "event \<Rightarrow> bool" where
  "is_NewStorage (NewStorage r) = True"
| "is_NewStorage ev = False"

fun is_BucketWrite :: "event \<Rightarrow> bool" where
  "is_BucketWrite (BucketWrite b p d r) = True"
| "is_BucketWrite ev = False"

text \<open>The calls to \<^verbatim>\<open>write_extraction_metrics\<close> in a trace, the arguments with the outcome.\<close>

fun metrics_calls :: "event list \<Rightarrow> (metrics_args \<times> py_exception option) list" where
  "metrics_calls [] = []"
| "metrics_calls (WriteMetrics a r # t) = (a, r) # metrics_calls t"
| "metrics_calls (ev # t) = metrics_calls t"

text \<open>The error files that reached the bucket: path and data of each write that returned.\<close>

fun artifacts :: "event list \<Rightarrow> (string \<times> string) list" where
  "artifacts [] = []"
| "artifacts (BucketWrite b p d (Inr uri) # t) = (p, d) # artifacts t"
| "artifacts (ev # t) = artifacts t"

text \<open>The stages of the success path a trace went through, in the order it did.\<close>

datatype stage = SDecode | SValidateMessage | SValidateInvoice | SPersist | SSuccessMetrics

fun stages :: "event list \<Rightarrow> stage list" where
  "stages [] = []"
| "stages (Decode r # t) = SDecode # stages t"
| "stages (ValidateMessage r # t) = SValidateMessage # stages t"
| "stages (ValidateInvoice r # t) = SValidateInvoice # stages t"
| "stages (WriteInvoice a r # t) = SPersist # stages t"
| "stages (WriteMetrics a r # t) = (if ma_success a then SSuccessMetrics # stages t else stages t)"
| "stages (ev # t) = stages t"


text \<open>The locals and the events of the \<^verbatim>\<open>try\<close> block at two points of its run: after the
  message is validated, and after the invoice is.\<close>

definition locals_after_message :: "json \<Rightarrow> message \<Rightarrow> locals" where
  "locals_after_message raw m =
     \<lparr>l_source_file = msg_source_file m, l_invoice_id = ''unknown'',
      l_raw_message = Some raw, l_message = Some m\<rparr>"

definition locals_after_invoice :: "json \<Rightarrow> message \<Rightarrow> invoice \<Rightarrow> locals" where
  "locals_after_invoice raw m invoice =
     \<lparr>l_source_file = msg_source_file m, l_invoice_id = inv_invoice_id invoice,
      l_raw_message = Some raw, l_message = Some m\<rparr>"

definition validated_prefix :: "json \<Rightarrow> message \<Rightarrow> invoice \<Rightarrow> event list" where
  "validated_prefix raw m invoice =
     [Decode (Inr raw), ValidateMessage (Inr m), Log LogInfo ''Processing extracted invoice'',
      ValidateInvoice (Inr invoice), Log LogInfo ''Invoice re-validated successfully'']"

text \<open>The exception that decoding, envelope validation or invoice re-validation raises, if
  one of them does: the first one, since the stages run in this order.\<close>

definition validation_failure :: "collaborators \<Rightarrow> cloud_event \<Rightarrow> py_exception option" where
  "validation_failure cb ev =
     (case decode_message_data cb ev of
        Inl e \<Rightarrow> Some e
      | Inr raw \<Rightarrow>
          (case message_model_validate cb raw of
             Inl e \<Rightarrow> Some e
           | Inr m \<Rightarrow>
               (case invoice_model_validate cb (msg_extracted_data m) of
                  Inl e \<Rightarrow> Some e
                | Inr invoice \<Rightarrow> None)))"

text \<open>The order of the stages of the success path.\<close>

definition stage_order :: "stage list" where
  "stage_order = [SDecode, SValidateMessage, SValidateInvoice, SPersist, SSuccessMetrics]"


subsection \<open>The specification's wording, for comparison\<close>

text \<open>A source file or invoice id is known when it is neither empty nor \<^verbatim>\<open>"unknown"\<close>.\<close>

definition known :: "string \<Rightarrow> bool" where
  "known s = (s \<noteq> [] \<and> s \<noteq> ''unknown'')"



text \<open>
  The spec's constraint kinds, as the \<^verbatim>\<open>if\<close>/\<^verbatim>\<open>elif\<close> chain of the loop tells them apart by
  the error type string, and the hint each kind gives.
\<close>

datatype constraint_kind = NumericRange | MissingField | TypeMismatch | Unrecognised

definition kind_of :: "string \<Rightarrow> constraint_kind" where
  "kind_of t =
     (if py_in ''greater_than'' t \<or> py_in ''less_than'' t then NumericRange
      else if py_in ''missing'' t then MissingField
      else if py_in ''string_type'' t \<or> py_in ''type_error'' t then TypeMismatch
      else Unrecognised)"

definition hint_of :: "error_detail \<Rightarrow> string option" where
  "hint_of err =
     (case kind_of (err_type err) of
        NumericRange \<Rightarrow> Some (numeric_hint (field_of err))
      | MissingField \<Rightarrow> Some (missing_hint (field_of err))
      | TypeMismatch \<Rightarrow> Some (type_hint (field_of err))
      | Unrecognised \<Rightarrow> None)"

subsection \<open>Sample inputs\<close>

definition sample_config :: config where
  "sample_config =
     \<lparr>project_id = ''invoice-project'', dataset = ''invoices'', invoices_table = ''invoice_headers'',
      line_items_table = ''invoice_line_items'', metrics_table = ''extraction_metrics'',
      failed_bucket = ''invoices-failed''\<rparr>"

definition sample_event :: cloud_event where
  "sample_event = \<lparr>data = JObj [(''message'', JObj [(''data'', JStr ''eyJ9'')])]\<rparr>"

definition sample_clock :: datetime where
  "sample_clock = \<lparr>year = 2025, month = 3, day = 9, hour = 14, minute = 5, second = 7,
                    microsecond = 250\<rparr>"

definition sample_message :: message where
  "sample_message =
     \<lparr>msg_source_file = ''gs://bucket/landing/ubereats_INV-UE-123_page2.tiff'',
      msg_vendor_type = VendorType ''ubereats'',
      msg_extraction_model = ''gemini-2.0-flash'',
      msg_extraction_latency_ms = 1200,
      msg_confidence_score = 95 / 100,
      msg_extracted_data = JObj [(''invoice_id'', JStr ''INV-UE-123'')]\<rparr>"

definition sample_invoice :: invoice where
  "sample_invoice =
     \<lparr>inv_invoice_id = ''INV-UE-123'', inv_vendor_type = VendorType ''ubereats'',
      inv_line_items = [], inv_total_amount = 42\<rparr>"

definition written_result :: write_result where
  "written_result =
     \<lparr>wr_success = True, wr_is_duplicate = False, wr_rows_written = 1, wr_error = None\<rparr>"

definition duplicate_result :: write_result where
  "duplicate_result =
     \<lparr>wr_success = True, wr_is_duplicate = True, wr_rows_written = 0, wr_error = None\<rparr>"

definition failed_result :: write_result where
  "failed_result =
     \<lparr>wr_success = False, wr_is_duplicate = False, wr_rows_written = 0,
      wr_error = Some ''quota exceeded''\<rparr>"

definition config_error :: py_exception where
  "config_error = OtherException ''KeyError'' ([apostrophe] @ ''GCP_PROJECT'' @ [apostrophe])"

definition credentials_error :: py_exception where
  "credentials_error = OtherException ''DefaultCredentialsError'' ''credentials not found''"

definition decode_error :: py_exception where
  "decode_error = OtherException ''JSONDecodeError'' ''Expecting value: line 1 column 1 (char 0)''"

definition metrics_error :: py_exception where
  "metrics_error = OtherException ''ServiceUnavailable'' ''metrics table unavailable''"

definition store_error :: py_exception where
  "store_error = OtherException ''DefaultCredentialsError'' ''storage credentials not found''"

definition missing_invoice_id :: error_detail where
  "missing_invoice_id =
     \<lparr>loc = [LocStr ''invoice_id''], err_type = ''missing'', msg = ''Field required'',
      input_str = ''{}''\<rparr>"

definition bad_vendor :: error_detail where
  "bad_vendor =
     \<lparr>loc = [LocStr ''vendor_type''], err_type = ''enum'',
      msg = ''Input should be a known vendor'', input_str = ''acme''\<rparr>"

definition missing_id_error :: py_exception where
  "missing_id_error = ValidationError [missing_invoice_id] ''1 validation error for ExtractedInvoice''"

definition two_field_error :: py_exception where
  "two_field_error =
     ValidationError [missing_invoice_id, bad_vendor] ''2 validation errors for ExtractedInvoice''"

text \<open>The collaborators when every call succeeds and the invoice is new.\<close>

definition all_ok :: collaborators where
  "all_ok =
     \<lparr>get_config = Inr sample_config,
      GCPBigQueryAdapter = (\<lambda>p. None),
      decode_message_data = (\<lambda>ev. Inr (JObj [])),
      message_model_validate = (\<lambda>raw. Inr sample_message),
      invoice_model_validate = (\<lambda>d. Inr sample_invoice),
      write_invoice_to_bigquery = (\<lambda>a. Inr written_result),
      write_extraction_metrics = (\<lambda>a. None),
      GCSAdapter = (\<lambda>p. None),
      now_utc = sample_clock,
      now_local = sample_clock,
      json_dumps = (\<lambda>r. Inr ''{}''),
      storage_write = (\<lambda>b p d. Inr (''gs://'' @ b @ ''/'' @ p))\<rparr>"

text \<open>Variations: configuration missing, credentials missing, an undecodable payload with
  no storage client to be had, an invoice without id, a failing persister, an invoice
  that is already stored, the metrics table unavailable (for a new invoice and for a
  duplicate).\<close>

definition no_config :: collaborators where
  "no_config = all_ok\<lparr>get_config := Inl config_error\<rparr>"

definition no_credentials :: collaborators where
  "no_credentials = all_ok\<lparr>GCPBigQueryAdapter := (\<lambda>p. Some credentials_error)\<rparr>"

definition undecodable_storage_down :: collaborators where
  "undecodable_storage_down =
     all_ok\<lparr>decode_message_data := (\<lambda>ev. Inl decode_error),
            GCSAdapter := (\<lambda>p. Some store_error)\<rparr>"

definition invoice_without_id :: collaborators where
  "invoice_without_id = all_ok\<lparr>invoice_model_validate := (\<lambda>d. Inl missing_id_error)\<rparr>"

definition persister_fails :: collaborators where
  "persister_fails = all_ok\<lparr>write_invoice_to_bigquery := (\<lambda>a. Inr failed_result)\<rparr>"


definition duplicate_invoice :: collaborators where
  "duplicate_invoice = all_ok\<lparr>write_invoice_to_bigquery := (\<lambda>a. Inr duplicate_result)\<rparr>"

definition duplicate_metrics_down :: collaborators where
  "duplicate_metrics_down =
     all_ok\<lparr>write_invoice_to_bigquery := (\<lambda>a. Inr duplicate_result),
            write_extraction_metrics := (\<lambda>a. Some metrics_error)\<rparr>"

text \<open>The arguments of the success metrics call for the sample message and invoice.\<close>

definition sample_success_metrics :: metrics_args where
  "sample_success_metrics =
     success_metrics_args sample_config sample_message (inv_invoice_id sample_invoice)
       (msg_source_file sample_message)"

text \<open>The arguments of the persister call for the sample message and invoice.\<close>

definition sample_write_args :: write_args where
  "sample_write_args =
     write_args_of sample_config sample_message sample_invoice (msg_source_file sample_message)"

text \<open>What the handler makes of the failing persister's result.\<close>

definition failed_write_error :: py_exception where
  "failed_write_error = RuntimeError ''BigQuery write failed: quota exceeded''"

definition failed_write_metrics :: metrics_args where
  "failed_write_metrics =
     failure_metrics_args sample_config failed_write_error
       (locals_after_invoice (JObj []) sample_message sample_invoice)"

section \<open>Properties\<close>

subsection \<open>Traces of the handler\<close>

lemma metrics_calls_append: "metrics_calls (t @ u) = metrics_calls t @ metrics_calls u"
  by (induction t rule: metrics_calls.induct) simp_all

lemma artifacts_append: "artifacts (t @ u) = artifacts t @ artifacts u"
  by (induction t rule: artifacts.induct) simp_all

lemma stages_append: "stages (t @ u) = stages t @ stages u"
  by (induction t rule: stages.induct) simp_all

lemma try_block_decode_raises:
  "decode_message_data cb ev = Inl e \<Longrightarrow>
   try_block cb cfg ev = (Some e, initial_locals, [Decode (Inl e)])"
  by (simp add: try_block_def)

lemma try_block_message_invalid:
  "decode_message_data cb ev = Inr raw \<Longrightarrow> message_model_validate cb raw = Inl e \<Longrightarrow>
   try_block cb cfg ev =
     (Some e, initial_locals\<lparr>l_raw_message := Some raw\<rparr>,
      [Decode (Inr raw), ValidateMessage (Inl e)])"
  by (simp add: try_block_def)

lemma try_block_invoice_invalid:
  "decode_message_data cb ev = Inr raw \<Longrightarrow> message_model_validate cb raw = Inr m \<Longrightarrow>
   invoice_model_validate cb (msg_extracted_data m) = Inl e \<Longrightarrow>
   try_block cb cfg ev =
     (Some e, locals_after_message raw m,
      [Decode (Inr raw), ValidateMessage (Inr m), Log LogInfo ''Processing extracted invoice'',
       ValidateInvoice (Inl e)])"
  by (simp add: try_block_def locals_after_message_def initial_locals_def)

lemma try_block_validated:
  "decode_message_data cb ev = Inr raw \<Longrightarrow> message_model_validate cb raw = Inr m \<Longrightarrow>
   invoice_model_validate cb (msg_extracted_data m) = Inr invoice \<Longrightarrow>
   try_block cb cfg ev =
     (fst (persist_and_record cb cfg m invoice), locals_after_invoice raw m invoice,
      validated_prefix raw m invoice @ snd (persist_and_record cb cfg m invoice))"
  by (simp add: try_block_def locals_after_invoice_def initial_locals_def validated_prefix_def
      split: prod.splits)


lemma persist_and_record_failed:
  "write_invoice_to_bigquery cb (write_args_of cfg m invoice (msg_source_file m)) = Inr r \<Longrightarrow>
   \<not> wr_success r \<Longrightarrow>
   persist_and_record cb cfg m invoice =
     (Some (RuntimeError (''BigQuery write failed: '' @ format_optional (wr_error r))),
      [WriteInvoice (write_args_of cfg m invoice (msg_source_file m)) (Inr r),
       Log LogError ''BigQuery write failed''])"
  by (simp add: persist_and_record_def Let_def)

lemma persist_and_record_metrics_raise:
  "write_invoice_to_bigquery cb (write_args_of cfg m invoice (msg_source_file m)) = Inr r \<Longrightarrow>
   wr_success r \<Longrightarrow>
   write_extraction_metrics cb
     (success_metrics_args cfg m (inv_invoice_id invoice) (msg_source_file m)) = Some e \<Longrightarrow>
   persist_and_record cb cfg m invoice =
     (Some e,
      [WriteInvoice (write_args_of cfg m invoice (msg_source_file m)) (Inr r),
       WriteMetrics (success_metrics_args cfg m (inv_invoice_id invoice) (msg_source_file m))
         (Some e)])"
  by (simp add: persist_and_record_def Let_def)

lemma persist_and_record_done:
  "write_invoice_to_bigquery cb (write_args_of cfg m invoice (msg_source_file m)) = Inr r \<Longrightarrow>
   wr_success r \<Longrightarrow>
   write_extraction_metrics cb
     (success_metrics_args cfg m (inv_invoice_id invoice) (msg_source_file m)) = None \<Longrightarrow>
   persist_and_record cb cfg m invoice =
     (None,
      [WriteInvoice (write_args_of cfg m invoice (msg_source_file m)) (Inr r),
       WriteMetrics (success_metrics_args cfg m (inv_invoice_id invoice) (msg_source_file m)) None,
       Log LogInfo (if wr_is_duplicate r then ''Duplicate invoice - no action taken''
                    else ''Invoice persisted to BigQuery'')])"
  by (simp add: persist_and_record_def Let_def)

lemma handler_after_setup:
  "get_config cb = Inr cfg \<Longrightarrow> GCPBigQueryAdapter cb (project_id cfg) = None \<Longrightarrow>
   handle_invoice_extracted cb ev =
     (Returned,
      (case try_block cb cfg ev of
         (None, l, t) \<Rightarrow> t
       | (Some e, l, t) \<Rightarrow> t @ except_block cb cfg e l))"
  by (simp add: handle_invoice_extracted_def split: prod.splits option.splits)

lemma metrics_calls_write_failure:
  "metrics_calls (snd (write_failure_to_bucket cb cfg src i e raw m)) = []"
  by (simp add: write_failure_to_bucket_def Let_def split: option.splits sum.splits)

lemma stages_write_failure:
  "stages (snd (write_failure_to_bucket cb cfg src i e raw m)) = []"
  by (simp add: write_failure_to_bucket_def Let_def split: option.splits sum.splits)

lemma metrics_calls_except_block:
  "metrics_calls (except_block cb cfg e l) =
     [(failure_metrics_args cfg e l, write_extraction_metrics cb (failure_metrics_args cfg e l))]"
  by (simp add: except_block_def Let_def split_def metrics_calls_append
      metrics_calls_write_failure split: sum.splits)

lemma stages_except_block: "stages (except_block cb cfg e l) = []"
  by (simp add: except_block_def Let_def split_def stages_append failure_metrics_args_def
      stages_write_failure split: sum.splits)


lemma metrics_calls_persist_and_record:
  "(a, r) \<in> set (metrics_calls (snd (persist_and_record cb cfg m invoice))) \<Longrightarrow>
   a = success_metrics_args cfg m (inv_invoice_id invoice) (msg_source_file m)"
  by (auto simp: persist_and_record_def Let_def split: sum.splits option.splits if_splits)

lemma metrics_calls_try_block:
  "(a, r) \<in> set (metrics_calls (snd (snd (try_block cb cfg ev)))) \<Longrightarrow> ma_success a"
  by (auto simp: try_block_def Let_def split_def metrics_calls_append success_metrics_args_def
      dest!: metrics_calls_persist_and_record split: sum.splits)

lemma try_block_message_bound:
  "decode_message_data cb ev = Inr raw \<Longrightarrow> message_model_validate cb raw = Inr m \<Longrightarrow>
   l_message (fst (snd (try_block cb cfg ev))) = Some m"
  by (simp add: try_block_def Let_def split_def split: sum.splits)

subsection \<open>The except block and the stages\<close>

lemma filter_write_failure:
  "filter is_WriteInvoice (snd (write_failure_to_bucket cb cfg src i e raw m)) = []"
  by (simp add: write_failure_to_bucket_def Let_def split: option.splits sum.splits)

lemma new_storage_write_failure:
  "length (filter is_NewStorage (snd (write_failure_to_bucket cb cfg src i e raw m))) = Suc 0"
  by (simp add: write_failure_to_bucket_def Let_def split: option.splits sum.splits)

lemma artifacts_single_write: "length (artifacts [BucketWrite b p d r]) \<le> Suc 0"
  by (cases r) simp_all

lemma artifacts_write_failure:
  "length (artifacts (snd (write_failure_to_bucket cb cfg src i e raw m))) \<le> Suc 0"
  by (simp add: write_failure_to_bucket_def Let_def artifacts_single_write
      split: option.splits sum.splits)



lemma except_block_unfold:
  "except_block cb cfg e l =
     [Log LogException ''BigQuery write processing failed'',
      WriteMetrics (failure_metrics_args cfg e l)
        (write_extraction_metrics cb (failure_metrics_args cfg e l))] @
     snd (write_failure_to_bucket cb cfg (l_source_file l) (l_invoice_id l) e
            (case l_raw_message l of Some r \<Rightarrow> r | None \<Rightarrow> JObj []) (l_message l)) @
     [case fst (write_failure_to_bucket cb cfg (l_source_file l) (l_invoice_id l) e
            (case l_raw_message l of Some r \<Rightarrow> r | None \<Rightarrow> JObj []) (l_message l)) of
        Inr uri \<Rightarrow> Log LogInfo ''Failed invoice written to failed bucket - message acknowledged''
      | Inl write_error \<Rightarrow> Log LogError ''Failed to write error file to bucket'']"
  by (simp add: except_block_def Let_def split_def split: sum.splits)

lemma except_block_no_persist: "filter is_WriteInvoice (except_block cb cfg e l) = []"
  by (simp add: except_block_unfold filter_write_failure split: sum.splits)

lemma except_block_one_capture: "length (filter is_NewStorage (except_block cb cfg e l)) = 1"
  by (simp add: except_block_unfold new_storage_write_failure split: sum.splits)

lemma except_block_artifacts: "length (artifacts (except_block cb cfg e l)) \<le> 1"
  by (simp add: except_block_unfold artifacts_append artifacts_write_failure split: sum.splits)



lemma try_block_validation_failure:
  "validation_failure cb ev = Some e \<Longrightarrow>
   fst (try_block cb cfg ev) = Some e \<and>
   filter is_WriteInvoice (snd (snd (try_block cb cfg ev))) = [] \<and>
   filter is_NewStorage (snd (snd (try_block cb cfg ev))) = [] \<and>
   filter is_BucketWrite (snd (snd (try_block cb cfg ev))) = [] \<and>
   artifacts (snd (snd (try_block cb cfg ev))) = [] \<and>
   metrics_calls (snd (snd (try_block cb cfg ev))) = []"
  by (auto simp: validation_failure_def try_block_def Let_def split: sum.splits)




lemma trace_after_setup:
  "get_config cb = Inr cfg \<Longrightarrow> GCPBigQueryAdapter cb (project_id cfg) = None \<Longrightarrow>
   try_block cb cfg ev = (exc, l, t) \<Longrightarrow>
   outcome_of cb ev = Returned \<and>
   trace_of cb ev = (case exc of None \<Rightarrow> t | Some e \<Rightarrow> t @ except_block cb cfg e l)"
  by (simp add: outcome_of_def trace_of_def handle_invoice_extracted_def split: option.splits)



lemma stages_persist_and_record:
  "prefix (stages (snd (persist_and_record cb cfg m invoice))) [SPersist, SSuccessMetrics]"
  by (simp add: persist_and_record_def Let_def success_metrics_args_def
      split: sum.splits option.splits)

lemma stages_try_block: "prefix (stages (snd (snd (try_block cb cfg ev)))) stage_order"
  using stages_persist_and_record
  by (auto simp: try_block_def Let_def split_def stage_order_def stages_append split: sum.splits)

lemma success_metrics_persist_and_record:
  "(a, r) \<in> set (metrics_calls (snd (persist_and_record cb cfg m invoice))) \<Longrightarrow>
   \<exists>wa wr t2. snd (persist_and_record cb cfg m invoice) =
                 [WriteInvoice wa (Inr wr), WriteMetrics a r] @ t2 \<and> wr_success wr"
  by (auto simp: persist_and_record_def Let_def split: sum.splits option.splits if_splits)

lemma success_metrics_try_block:
  assumes "(a, r) \<in> set (metrics_calls (snd (snd (try_block cb cfg ev))))"
  shows "\<exists>wa wr t1 t2. snd (snd (try_block cb cfg ev)) =
                         t1 @ [WriteInvoice wa (Inr wr), WriteMetrics a r] @ t2 \<and> wr_success wr"
proof (cases "decode_message_data cb ev")
  case (Inl e)
  with assms show ?thesis by (simp add: try_block_decode_raises)
next
  case (Inr raw)
  show ?thesis
  proof (cases "message_model_validate cb raw")
    case (Inl e)
    with Inr assms show ?thesis by (simp add: try_block_message_invalid)
  next
    case m: (Inr m)
    show ?thesis
    proof (cases "invoice_model_validate cb (msg_extracted_data m)")
      case (Inl e)
      with Inr m assms show ?thesis by (simp add: try_block_invoice_invalid)
    next
      case i: (Inr invoice)
      have tb: "snd (snd (try_block cb cfg ev)) =
                  validated_prefix raw m invoice @ snd (persist_and_record cb cfg m invoice)"
        by (simp add: try_block_validated[OF Inr m i])
      have "(a, r) \<in> set (metrics_calls (snd (persist_and_record cb cfg m invoice)))"
        using assms by (simp add: tb metrics_calls_append validated_prefix_def)
      from success_metrics_persist_and_record[OF this] obtain wa wr t2 where
        p: "snd (persist_and_record cb cfg m invoice) =
           [WriteInvoice wa (Inr wr), WriteMetrics a r] @ t2" "wr_success wr"
        by blast
      have "snd (snd (try_block cb cfg ev)) =
              validated_prefix raw m invoice @ [WriteInvoice wa (Inr wr), WriteMetrics a r] @ t2"
        by (simp add: tb p(1))
      with p(2) show ?thesis by blast
    qed
  qed
qed

lemma artifacts_write_failure_ok:
  "GCSAdapter cb (project_id cfg) = None \<Longrightarrow> \<forall>rec. \<exists>j. json_dumps cb rec = Inr j \<Longrightarrow>
   \<forall>b p d. \<exists>u. storage_write cb b p d = Inr u \<Longrightarrow>
   length (artifacts (snd (write_failure_to_bucket cb cfg src i e raw m))) = Suc 0"
proof -
  assume g: "GCSAdapter cb (project_id cfg) = None" and j: "\<forall>rec. \<exists>j. json_dumps cb rec = Inr j"
    and w: "\<forall>b p d. \<exists>u. storage_write cb b p d = Inr u"
  from j obtain js where js: "json_dumps cb (create_error_record src i e raw m (now_utc cb)) = Inr js"
    by blast
  from w obtain u where
    "storage_write cb (failed_bucket cfg) (generate_error_filename src i (now_local cb)) js = Inr u"
    by blast
  with g js show ?thesis by (simp add: write_failure_to_bucket_def Let_def)
qed

lemma except_block_artifacts_ok:
  "GCSAdapter cb (project_id cfg) = None \<Longrightarrow> \<forall>rec. \<exists>j. json_dumps cb rec = Inr j \<Longrightarrow>
   \<forall>b p d. \<exists>u. storage_write cb b p d = Inr u \<Longrightarrow>
   length (artifacts (except_block cb cfg e l)) = Suc 0"
  by (simp add: except_block_unfold artifacts_append artifacts_write_failure_ok split: sum.splits)

subsection \<open>Metrics calls, bucket writes and keys\<close>









subsection \<open>The regular expression and the hint loop\<close>
















lemma hints_name_field:
  "py_in f (numeric_hint f) \<and> py_in f (missing_hint f) \<and> py_in f (type_hint f)"
proof -
  have a: "numeric_hint f = (''Field '' @ [apostrophe]) @ f @
             ([apostrophe] @ '' has numeric constraint violation. '' @
              ''Check if this is a discount/credit that should be handled differently.'')"
    unfolding numeric_hint_def by (simp only: append.assoc)
  have b: "missing_hint f = (''Required field '' @ [apostrophe]) @ f @
             ([apostrophe] @ '' is missing. '' @ ''Review extraction prompt for this field.'')"
    unfolding missing_hint_def by (simp only: append.assoc)
  have c: "type_hint f = (''Field '' @ [apostrophe]) @ f @
             ([apostrophe] @ '' has wrong type. '' @ ''Check LLM output format for this field.'')"
    unfolding type_hint_def by (simp only: append.assoc)
  have "sublist f (numeric_hint f)" by (subst a) (rule sublist_appendI)
  moreover have "sublist f (missing_hint f)" by (subst b) (rule sublist_appendI)
  moreover have "sublist f (type_hint f)" by (subst c) (rule sublist_appendI)
  ultimately show ?thesis by (simp only: py_in_def)
qed

lemma hints_step_eq:
  "hints_step err hints = hints @ (case hint_of err of None \<Rightarrow> [] | Some h \<Rightarrow> [h])"
  by (simp add: hints_step_def hint_of_def kind_of_def Let_def)

lemma hints_loop_eq: "hints_loop errs hints = hints @ List.map_filter hint_of errs"
proof (induction errs arbitrary: hints)
  case Nil
  show ?case by (simp add: List.map_filter_simps)
next
  case (Cons err errs)
  show ?case
    by (cases "hint_of err") (simp_all add: Cons.IH hints_step_eq List.map_filter_simps)
qed

lemma length_map_filter_hint_of:
  "length (List.map_filter hint_of errs) =
   length (filter (\<lambda>d. kind_of (err_type d) \<noteq> Unrecognised) errs)"
  by (induction errs)
     (auto simp: List.map_filter_simps hint_of_def split: constraint_kind.splits)

subsection \<open>Claims\<close>

text \<open>
  Claim C10. \<^verbatim>\<open>get_config()\<close> and the construction of the BigQuery adapter run before the
  \<^verbatim>\<open>try\<close>: when either raises, the exception leaves \<^verbatim>\<open>handle_invoice_extracted\<close>, no call to
  \<^verbatim>\<open>write_extraction_metrics\<close> is made, \<^verbatim>\<open>_write_failure_to_bucket\<close> is not entered and no
  error file is written.
\<close>

theorem setup_failure_escapes:
  assumes "get_config cb = Inl e \<or>
           (\<exists>cfg. get_config cb = Inr cfg \<and> GCPBigQueryAdapter cb (project_id cfg) = Some e)"
  shows "handle_invoice_extracted cb ev = (Raised e, []) \<and>
         metrics_calls (snd (handle_invoice_extracted cb ev)) = [] \<and>
         filter is_NewStorage (snd (handle_invoice_extracted cb ev)) = [] \<and>
         artifacts (snd (handle_invoice_extracted cb ev)) = []"
  using assms by (auto simp: handle_invoice_extracted_def)

theorem setup_failure_escapes_witness:
  "handle_invoice_extracted no_config sample_event = (Raised config_error, []) \<and>
   handle_invoice_extracted no_credentials sample_event = (Raised credentials_error, [])"
proof -
  have h1: "get_config no_config = Inl config_error \<or>
            (\<exists>cfg. get_config no_config = Inr cfg \<and>
                   GCPBigQueryAdapter no_config (project_id cfg) = Some config_error)"
    by (simp add: no_config_def all_ok_def)
  have h2: "get_config no_credentials = Inl credentials_error \<or>
            (\<exists>cfg. get_config no_credentials = Inr cfg \<and>
                   GCPBigQueryAdapter no_credentials (project_id cfg) = Some credentials_error)"
    by (simp add: no_credentials_def all_ok_def)
  show ?thesis
    using setup_failure_escapes[OF h1, of sample_event] setup_failure_escapes[OF h2, of sample_event]
    by simp
qed

text \<open>
  Claim C1. The docstring of \<^verbatim>\<open>handle_invoice_extracted\<close> says that the function does not
  raise, and the claim says that no exception ever escapes the handler. With a
  \<^verbatim>\<open>get_config()\<close> that raises, the handler run on the sample event raises that exception:
  line 62 is outside the \<^verbatim>\<open>try\<close> block.
\<close>

theorem config_failure_escapes_handler:
  "outcome_of no_config sample_event = Raised config_error \<and> trace_of no_config sample_event = []"
  by (simp add: outcome_of_def trace_of_def handle_invoice_extracted_def no_config_def all_ok_def)

text \<open>
  Claim C9. Every call to \<^verbatim>\<open>write_extraction_metrics\<close> with \<^verbatim>\<open>success=False\<close> passes
  \<^verbatim>\<open>confidence_score=0.0\<close>. This is so also when the message was parsed and a later stage
  failed: the call then takes vendor type, model and latency from the message, and the
  error message from the exception, but not the message's confidence score.
\<close>

theorem failure_metrics_confidence_zero:
  "((a, r) \<in> set (metrics_calls (snd (handle_invoice_extracted cb ev))) \<and> \<not> ma_success a
      \<longrightarrow> ma_confidence_score a = 0) \<and>
   (get_config cb = Inr cfg \<and> GCPBigQueryAdapter cb (project_id cfg) = None \<and>
    decode_message_data cb ev = Inr raw \<and> message_model_validate cb raw = Inr m \<and>
    fst (try_block cb cfg ev) = Some e
      \<longrightarrow> (\<exists>a r. (a, r) \<in> set (metrics_calls (snd (handle_invoice_extracted cb ev))) \<and>
                 \<not> ma_success a \<and>
                 ma_vendor_type a = VendorMember (msg_vendor_type m) \<and>
                 ma_extraction_model a = msg_extraction_model m \<and>
                 ma_extraction_latency_ms a = msg_extraction_latency_ms m \<and>
                 ma_error_message a = Some (str_exception e) \<and>
                 ma_confidence_score a = 0))"
proof (intro conjI impI)
  assume h: "(a, r) \<in> set (metrics_calls (snd (handle_invoice_extracted cb ev))) \<and> \<not> ma_success a"
  show "ma_confidence_score a = 0"
  proof (cases "get_config cb")
    case (Inl x)
    with h show ?thesis by (simp add: handle_invoice_extracted_def)
  next
    case (Inr cfg')
    show ?thesis
    proof (cases "GCPBigQueryAdapter cb (project_id cfg')")
      case (Some x)
      with Inr h show ?thesis by (simp add: handle_invoice_extracted_def)
    next
      case None
      obtain exc l t where tb: "try_block cb cfg' ev = (exc, l, t)"
        by (cases "try_block cb cfg' ev") auto
      have nt: "(a, r) \<notin> set (metrics_calls t)"
        using metrics_calls_try_block[of a r cb cfg' ev] h tb by auto
      show ?thesis
      proof (cases exc)
        case None
        with handler_after_setup[OF Inr \<open>GCPBigQueryAdapter cb (project_id cfg') = None\<close>, of ev] tb h nt
        show ?thesis by simp
      next
        case (Some e')
        with handler_after_setup[OF Inr \<open>GCPBigQueryAdapter cb (project_id cfg') = None\<close>, of ev] tb h nt
        have "(a, r) \<in> set (metrics_calls (except_block cb cfg' e' l))"
          by (simp add: metrics_calls_append)
        then show ?thesis
          by (simp add: metrics_calls_except_block failure_metrics_args_def)
      qed
    qed
  qed
next
  assume h: "get_config cb = Inr cfg \<and> GCPBigQueryAdapter cb (project_id cfg) = None \<and>
    decode_message_data cb ev = Inr raw \<and> message_model_validate cb raw = Inr m \<and>
    fst (try_block cb cfg ev) = Some e"
  obtain l t where tb: "try_block cb cfg ev = (Some e, l, t)"
    using h by (cases "try_block cb cfg ev") auto
  have lm: "l_message l = Some m"
    using try_block_message_bound[of cb ev raw m cfg] h tb by simp
  have tr: "snd (handle_invoice_extracted cb ev) = t @ except_block cb cfg e l"
    using handler_after_setup[of cb cfg ev] h tb by simp
  let ?a = "failure_metrics_args cfg e l"
  have "(?a, write_extraction_metrics cb ?a) \<in> set (metrics_calls (snd (handle_invoice_extracted cb ev)))"
    by (simp add: tr metrics_calls_append metrics_calls_except_block)
  moreover have "\<not> ma_success ?a \<and> ma_vendor_type ?a = VendorMember (msg_vendor_type m) \<and>
                 ma_extraction_model ?a = msg_extraction_model m \<and>
                 ma_extraction_latency_ms ?a = msg_extraction_latency_ms m \<and>
                 ma_error_message ?a = Some (str_exception e) \<and>
                 ma_confidence_score ?a = 0"
    by (simp add: failure_metrics_args_def lm)
  ultimately show "\<exists>a r. (a, r) \<in> set (metrics_calls (snd (handle_invoice_extracted cb ev))) \<and>
                 \<not> ma_success a \<and>
                 ma_vendor_type a = VendorMember (msg_vendor_type m) \<and>
                 ma_extraction_model a = msg_extraction_model m \<and>
                 ma_extraction_latency_ms a = msg_extraction_latency_ms m \<and>
                 ma_error_message a = Some (str_exception e) \<and>
                 ma_confidence_score a = 0"
    by blast
qed

theorem failure_metrics_confidence_zero_witness:
  "msg_confidence_score sample_message = 95 / 100 \<and>
   (failed_write_metrics, None)
     \<in> set (metrics_calls (snd (handle_invoice_extracted persister_fails sample_event))) \<and>
   \<not> ma_success failed_write_metrics \<and>
   ma_confidence_score failed_write_metrics = 0 \<and>
   fst (try_block persister_fails sample_config sample_event) = Some failed_write_error \<and>
   (\<exists>a r. (a, r) \<in> set (metrics_calls (snd (handle_invoice_extracted persister_fails sample_event))) \<and>
          \<not> ma_success a \<and>
          ma_extraction_model a = msg_extraction_model sample_message \<and>
          ma_confidence_score a = 0)"
proof -
  have c: "msg_confidence_score sample_message = 95 / 100"
    by (simp add: sample_message_def)
  have h1: "(failed_write_metrics, None)
              \<in> set (metrics_calls (snd (handle_invoice_extracted persister_fails sample_event))) \<and>
            \<not> ma_success failed_write_metrics"
    by (simp add: handle_invoice_extracted_def try_block_def persist_and_record_def
        persister_fails_def all_ok_def Let_def failed_result_def failed_write_error_def
        except_block_def write_failure_to_bucket_def failed_write_metrics_def
        locals_after_invoice_def initial_locals_def failure_metrics_args_def)
  have h2: "get_config persister_fails = Inr sample_config \<and>
            GCPBigQueryAdapter persister_fails (project_id sample_config) = None \<and>
            decode_message_data persister_fails sample_event = Inr (JObj []) \<and>
            message_model_validate persister_fails (JObj []) = Inr sample_message \<and>
            fst (try_block persister_fails sample_config sample_event) = Some failed_write_error"
    by (simp add: try_block_def persist_and_record_def persister_fails_def all_ok_def Let_def
        failed_result_def failed_write_error_def)
  note inst = failure_metrics_confidence_zero
    [of failed_write_metrics None persister_fails sample_event sample_config "JObj []"
        sample_message failed_write_error]
  from inst h1 have z: "ma_confidence_score failed_write_metrics = 0" by blast
  from inst h2 have "\<exists>a r. (a, r) \<in> set (metrics_calls (snd (handle_invoice_extracted persister_fails sample_event))) \<and>
                 \<not> ma_success a \<and>
                 ma_vendor_type a = VendorMember (msg_vendor_type sample_message) \<and>
                 ma_extraction_model a = msg_extraction_model sample_message \<and>
                 ma_extraction_latency_ms a = msg_extraction_latency_ms sample_message \<and>
                 ma_error_message a = Some (str_exception failed_write_error) \<and>
                 ma_confidence_score a = 0"
    by blast
  then have e: "\<exists>a r. (a, r) \<in> set (metrics_calls (snd (handle_invoice_extracted persister_fails sample_event))) \<and>
          \<not> ma_success a \<and>
          ma_extraction_model a = msg_extraction_model sample_message \<and>
          ma_confidence_score a = 0"
    by blast
  from c h1 z h2 e show ?thesis by blast
qed




text \<open>
  Claim C4, as amended. \<^verbatim>\<open>_generate_remediation_hints\<close> is a total function of the error. For
  a \<^verbatim>\<open>ValidationError\<close> it gives, in the order of the entries, one hint for each entry whose
  type string contains \<^verbatim>\<open>greater_than\<close> or \<^verbatim>\<open>less_than\<close> (the discount/credit hint), else
  \<^verbatim>\<open>missing\<close> (the hint to review the extraction prompt), else \<^verbatim>\<open>string_type\<close> or
  \<^verbatim>\<open>type_error\<close> (the hint to check the output format), each naming the field; entries of any
  other type give no hint. The single generic hint is given exactly when no hint was
  produced: for an error that is not a \<^verbatim>\<open>ValidationError\<close>, and for a \<^verbatim>\<open>ValidationError\<close> none of
  whose entries is recognised. So the number of hints is the number of recognised
  entries, or one when there is none.
\<close>

theorem remediation_hints_by_kind:
  "generate_remediation_hints (ValidationError errs s) =
     (if List.map_filter hint_of errs = [] then [generic_hint] else List.map_filter hint_of errs) \<and>
   length (generate_remediation_hints (ValidationError errs s)) =
     max 1 (length (filter (\<lambda>d. kind_of (err_type d) \<noteq> Unrecognised) errs)) \<and>
   generate_remediation_hints (OtherException n s) = [generic_hint] \<and>
   py_in f (numeric_hint f) \<and> py_in f (missing_hint f) \<and> py_in f (type_hint f)"
proof -
  have a: "generate_remediation_hints (ValidationError errs s) =
     (if List.map_filter hint_of errs = [] then [generic_hint] else List.map_filter hint_of errs)"
    by (simp add: generate_remediation_hints_def hints_loop_eq)
  have b: "length (generate_remediation_hints (ValidationError errs s)) =
     max 1 (length (filter (\<lambda>d. kind_of (err_type d) \<noteq> Unrecognised) errs))"
    unfolding a using length_map_filter_hint_of[of errs]
    by (cases "List.map_filter hint_of errs") auto
  have c: "generate_remediation_hints (OtherException n s) = [generic_hint]"
    by (simp add: generate_remediation_hints_def)
  from a b c hints_name_field[of f] show ?thesis by blast
qed

text \<open>
  Claim C4 as stated fails: one hint per violated field. A validation error with two
  violated fields, a missing \<^verbatim>\<open>invoice_id\<close> and a \<^verbatim>\<open>vendor_type\<close> outside the enum, gives one
  hint. The second field gets none, and the generic hint is not given either.
\<close>

theorem one_hint_for_two_violated_fields:
  "generate_remediation_hints two_field_error = [missing_hint ''invoice_id''] \<and>
   length (generate_remediation_hints two_field_error) \<noteq> length [missing_invoice_id, bad_vendor]"
  by code_simp

text \<open>
  Claim C7. The record \<^verbatim>\<open>_create_error_record\<close> builds has the five documented parts with
  the documented fields: the metadata with the timestamp in ISO format, the stage
  \<^verbatim>\<open>bigquery-writer\<close>, the exception's type name and text, \<^verbatim>\<open>is_validation_error\<close> true exactly
  for a \<^verbatim>\<open>ValidationError\<close> and the validation details present exactly then; the invoice
  context from the arguments and the parsed message (defaults \<^verbatim>\<open>unknown\<close> and 0.0 without
  one); the extracted data, the raw message and the remediation hints. For a validation
  error with an entry of type \<^verbatim>\<open>missing\<close> at location \<^verbatim>\<open>invoice_id\<close>, the details' list has an
  entry with field \<^verbatim>\<open>invoice_id\<close> and type \<^verbatim>\<open>missing\<close>.
\<close>

theorem error_record_structure:
  "timestamp (error_metadata (create_error_record src i e raw m ts)) = isoformat ts \<and>
   failed_stage (error_metadata (create_error_record src i e raw m ts)) = ''bigquery-writer'' \<and>
   error_type (error_metadata (create_error_record src i e raw m ts)) = type_name e \<and>
   error_message (error_metadata (create_error_record src i e raw m ts)) = str_exception e \<and>
   (is_validation_error (error_metadata (create_error_record src i e raw m ts))
      \<longleftrightarrow> (\<exists>errs s. e = ValidationError errs s)) \<and>
   (validation_details (error_metadata (create_error_record src i e raw m ts)) = None
      \<longleftrightarrow> (\<exists>n s. e = OtherException n s)) \<and>
   invoice_context (create_error_record src i e raw m ts) =
     \<lparr>source_file = src, invoice_id = i,
      vendor_type = (case m of Some mm \<Rightarrow> vendor_value (msg_vendor_type mm) | None \<Rightarrow> ''unknown''),
      extraction_model = (case m of Some mm \<Rightarrow> msg_extraction_model mm | None \<Rightarrow> ''unknown''),
      confidence_score = (case m of Some mm \<Rightarrow> msg_confidence_score mm | None \<Rightarrow> 0)\<rparr> \<and>
   extracted_data (create_error_record src i e raw m ts) =
     (case m of Some mm \<Rightarrow> msg_extracted_data mm | None \<Rightarrow> JObj []) \<and>
   raw_message (create_error_record src i e raw m ts) = raw \<and>
   remediation_hints (create_error_record src i e raw m ts) = generate_remediation_hints e \<and>
   (e = ValidationError errs s \<and> d \<in> set errs \<and> loc d = [LocStr ''invoice_id''] \<and>
    err_type d = ''missing''
      \<longrightarrow> (\<exists>vd. validation_details (error_metadata (create_error_record src i e raw m ts)) = Some vd \<and>
                error_count vd = length errs \<and>
                (\<exists>x \<in> set (errors vd). ve_field x = ''invoice_id'' \<and> ve_type x = ''missing'')))"
proof -
  have missing: "\<exists>x \<in> set errs. ve_field (validation_entry_of x) = ''invoice_id'' \<and>
                   ve_type (validation_entry_of x) = ''missing''"
    if "d \<in> set errs" "loc d = [LocStr ''invoice_id'']" "err_type d = ''missing''"
  proof -
    have "ve_field (validation_entry_of d) = ''invoice_id'' \<and> ve_type (validation_entry_of d) = ''missing''"
      using that by (simp add: validation_entry_of_def)
    with that(1) show ?thesis by blast
  qed
  show ?thesis
    by (cases e) (auto simp: create_error_record_def Let_def intro: missing)
qed

theorem error_record_structure_witness:
  "missing_id_error = ValidationError [missing_invoice_id] ''1 validation error for ExtractedInvoice'' \<and>
   missing_invoice_id \<in> set [missing_invoice_id] \<and>
   loc missing_invoice_id = [LocStr ''invoice_id''] \<and>
   err_type missing_invoice_id = ''missing'' \<and>
   (\<exists>vd. validation_details (error_metadata
            (create_error_record (msg_source_file sample_message) ''unknown'' missing_id_error
               (JObj []) (Some sample_message) sample_clock)) = Some vd \<and>
         error_count vd = 1 \<and>
         (\<exists>x \<in> set (errors vd). ve_field x = ''invoice_id'' \<and> ve_type x = ''missing''))"
proof -
  have h: "missing_id_error =
             ValidationError [missing_invoice_id] ''1 validation error for ExtractedInvoice'' \<and>
           missing_invoice_id \<in> set [missing_invoice_id] \<and>
           loc missing_invoice_id = [LocStr ''invoice_id''] \<and>
           err_type missing_invoice_id = ''missing''"
    by (simp add: missing_id_error_def missing_invoice_id_def)
  have i: "missing_id_error =
             ValidationError [missing_invoice_id] ''1 validation error for ExtractedInvoice'' \<and>
           missing_invoice_id \<in> set [missing_invoice_id] \<and>
           loc missing_invoice_id = [LocStr ''invoice_id''] \<and>
           err_type missing_invoice_id = ''missing''
           \<longrightarrow> (\<exists>vd. validation_details (error_metadata
                   (create_error_record (msg_source_file sample_message) ''unknown'' missing_id_error
                      (JObj []) (Some sample_message) sample_clock)) = Some vd \<and>
                error_count vd = length [missing_invoice_id] \<and>
                (\<exists>x \<in> set (errors vd). ve_field x = ''invoice_id'' \<and> ve_type x = ''missing''))"
    using error_record_structure
      [of "msg_source_file sample_message" "''unknown''" missing_id_error "JObj []"
          "Some sample_message" sample_clock "[missing_invoice_id]"
          "''1 validation error for ExtractedInvoice''" missing_invoice_id]
    by blast
  from i h show ?thesis by simp
qed

text \<open>
  Claim C6, as amended. Once configuration and adapter are there, the handler returns and
  the stages it went through are an initial part of decode, envelope validation, invoice
  re-validation, persistence, success metrics. When decoding or either validation raises,
  \<^verbatim>\<open>write_invoice_to_bigquery\<close> is not called, \<^verbatim>\<open>_write_failure_to_bucket\<close> is entered exactly
  once, and at most one error file is written: exactly one when the storage adapter, the
  serialisation and the bucket write all succeed. A metrics call with \<^verbatim>\<open>success=True\<close> comes
  directly after a call of the persister that returned a result with \<^verbatim>\<open>success\<close> true.
\<close>

theorem stage_order_and_failure_capture:
  assumes "get_config cb = Inr cfg" and "GCPBigQueryAdapter cb (project_id cfg) = None"
  shows "outcome_of cb ev = Returned \<and>
         prefix (stages (trace_of cb ev)) stage_order \<and>
         (validation_failure cb ev \<noteq> None \<longrightarrow>
            filter is_WriteInvoice (trace_of cb ev) = [] \<and>
            length (filter is_NewStorage (trace_of cb ev)) = 1 \<and>
            length (artifacts (trace_of cb ev)) \<le> 1) \<and>
         (validation_failure cb ev \<noteq> None \<and> GCSAdapter cb (project_id cfg) = None \<and>
          (\<forall>rec. \<exists>j. json_dumps cb rec = Inr j) \<and> (\<forall>b p d. \<exists>u. storage_write cb b p d = Inr u) \<longrightarrow>
            length (artifacts (trace_of cb ev)) = 1) \<and>
         (\<forall>a r. (a, r) \<in> set (metrics_calls (trace_of cb ev)) \<and> ma_success a \<longrightarrow>
            (\<exists>wa wr t1 t2. trace_of cb ev = t1 @ [WriteInvoice wa (Inr wr), WriteMetrics a r] @ t2 \<and>
                            wr_success wr))"
proof -
  obtain exc l t where tb: "try_block cb cfg ev = (exc, l, t)"
    by (cases "try_block cb cfg ev") auto
  note tr = trace_after_setup[OF assms tb]
  have t: "t = snd (snd (try_block cb cfg ev))" and x: "exc = fst (try_block cb cfg ev)"
    by (simp_all add: tb)
  have p1: "outcome_of cb ev = Returned" using tr by simp
  have p2: "prefix (stages (trace_of cb ev)) stage_order"
    using stages_try_block[of cb cfg ev] tr
    by (cases exc) (simp_all add: t stages_append stages_except_block)
  have p3: "filter is_WriteInvoice (trace_of cb ev) = [] \<and>
            length (filter is_NewStorage (trace_of cb ev)) = 1 \<and>
            length (artifacts (trace_of cb ev)) \<le> 1"
    if "validation_failure cb ev \<noteq> None"
  proof -
    from that obtain e where e: "validation_failure cb ev = Some e" by auto
    from try_block_validation_failure[OF e, of cfg] tb
    have q: "exc = Some e" "filter is_WriteInvoice t = []" "filter is_NewStorage t = []"
      "artifacts t = []"
      by simp_all
    show ?thesis
      using tr q except_block_no_persist[of cb cfg e l] except_block_one_capture[of cb cfg e l]
        except_block_artifacts[of cb cfg e l]
      by (simp add: artifacts_append)
  qed
  have p4: "length (artifacts (trace_of cb ev)) = 1"
    if "validation_failure cb ev \<noteq> None \<and> GCSAdapter cb (project_id cfg) = None \<and>
          (\<forall>rec. \<exists>j. json_dumps cb rec = Inr j) \<and> (\<forall>b p d. \<exists>u. storage_write cb b p d = Inr u)"
  proof -
    from that obtain e where e: "validation_failure cb ev = Some e" by auto
    from try_block_validation_failure[OF e, of cfg] tb
    have q: "exc = Some e" "artifacts t = []" by simp_all
    show ?thesis
      using tr q except_block_artifacts_ok[of cb cfg e l] that
      by (simp add: artifacts_append)
  qed
  have p5: "\<exists>wa wr t1 t2. trace_of cb ev = t1 @ [WriteInvoice wa (Inr wr), WriteMetrics a r] @ t2 \<and>
                            wr_success wr"
    if "(a, r) \<in> set (metrics_calls (trace_of cb ev)) \<and> ma_success a" for a r
  proof -
    have "(a, r) \<in> set (metrics_calls t)"
      using that tr
      by (cases exc)
         (auto simp: metrics_calls_append metrics_calls_except_block failure_metrics_args_def)
    from success_metrics_try_block[of a r cb cfg ev] this obtain wa wr t1 t2 where
      s: "t = t1 @ [WriteInvoice wa (Inr wr), WriteMetrics a r] @ t2" "wr_success wr"
      by (auto simp: t)
    show ?thesis
    proof (cases exc)
      case None
      with tr s show ?thesis by auto
    next
      case (Some e)
      with tr s have "trace_of cb ev =
          t1 @ [WriteInvoice wa (Inr wr), WriteMetrics a r] @ (t2 @ except_block cb cfg e l)"
        by simp
      with s(2) show ?thesis by blast
    qed
  qed
  from p1 p2 p3 p4 p5 show ?thesis by blast
qed

text \<open>
  Claim C6 as stated fails: exactly one error artifact when decoding raises. With a payload
  that cannot be decoded and a storage adapter whose construction raises, the persister is
  not called, \<^verbatim>\<open>_write_failure_to_bucket\<close> stops at its first line, before an error record is
  built, and nothing is written; the exception is logged and dropped.
\<close>

theorem no_artifact_without_storage:
  "validation_failure undecodable_storage_down sample_event = Some decode_error \<and>
   trace_of undecodable_storage_down sample_event =
     [Decode (Inl decode_error),
      Log LogException ''BigQuery write processing failed'',
      WriteMetrics (failure_metrics_args sample_config decode_error initial_locals) None,
      NewStorage (Some store_error),
      Log LogError ''Failed to write error file to bucket''] \<and>
   artifacts (trace_of undecodable_storage_down sample_event) = []"
  by (simp add: validation_failure_def trace_of_def handle_invoice_extracted_def try_block_def
      except_block_def write_failure_to_bucket_def Let_def undecodable_storage_down_def all_ok_def)

theorem stage_order_and_failure_capture_witness:
  "get_config invoice_without_id = Inr sample_config \<and>
   GCPBigQueryAdapter invoice_without_id (project_id sample_config) = None \<and>
   validation_failure invoice_without_id sample_event \<noteq> None \<and>
   GCSAdapter invoice_without_id (project_id sample_config) = None \<and>
   (\<forall>rec. \<exists>j. json_dumps invoice_without_id rec = Inr j) \<and>
   (\<forall>b p d. \<exists>u. storage_write invoice_without_id b p d = Inr u) \<and>
   filter is_WriteInvoice (trace_of invoice_without_id sample_event) = [] \<and>
   length (artifacts (trace_of invoice_without_id sample_event)) = 1 \<and>
   get_config all_ok = Inr sample_config \<and>
   GCPBigQueryAdapter all_ok (project_id sample_config) = None \<and>
   (sample_success_metrics, None) \<in> set (metrics_calls (trace_of all_ok sample_event)) \<and>
   ma_success sample_success_metrics \<and>
   (\<exists>wa wr t1 t2. trace_of all_ok sample_event =
                     t1 @ [WriteInvoice wa (Inr wr), WriteMetrics sample_success_metrics None] @ t2 \<and>
                   wr_success wr)"
proof -
  have s1: "get_config invoice_without_id = Inr sample_config"
    and s2: "GCPBigQueryAdapter invoice_without_id (project_id sample_config) = None"
    by (simp_all add: invoice_without_id_def all_ok_def)
  have v: "validation_failure invoice_without_id sample_event \<noteq> None"
    by (simp add: validation_failure_def invoice_without_id_def all_ok_def)
  have q: "GCSAdapter invoice_without_id (project_id sample_config) = None \<and>
           (\<forall>rec. \<exists>j. json_dumps invoice_without_id rec = Inr j) \<and>
           (\<forall>b p d. \<exists>u. storage_write invoice_without_id b p d = Inr u)"
    by (simp add: invoice_without_id_def all_ok_def)
  have o1: "get_config all_ok = Inr sample_config"
    and o2: "GCPBigQueryAdapter all_ok (project_id sample_config) = None"
    by (simp_all add: all_ok_def)
  have m: "(sample_success_metrics, None) \<in> set (metrics_calls (trace_of all_ok sample_event)) \<and>
           ma_success sample_success_metrics"
    by (simp add: trace_of_def handle_invoice_extracted_def try_block_def persist_and_record_def
        Let_def all_ok_def written_result_def sample_success_metrics_def success_metrics_args_def)
  note a = stage_order_and_failure_capture[OF s1 s2, of sample_event]
  note b = stage_order_and_failure_capture[OF o1 o2, of sample_event]
  from a v have r1: "filter is_WriteInvoice (trace_of invoice_without_id sample_event) = []"
    by blast
  from a v q have r2: "length (artifacts (trace_of invoice_without_id sample_event)) = 1"
    by blast
  from b m have r3: "\<exists>wa wr t1 t2. trace_of all_ok sample_event =
                     t1 @ [WriteInvoice wa (Inr wr), WriteMetrics sample_success_metrics None] @ t2 \<and>
                   wr_success wr"
    by blast
  from s1 s2 v q r1 r2 o1 o2 m r3 show ?thesis by blast
qed




text \<open>
  Claim C5, as amended. When the persister returns a result, the handler looks at
  \<^verbatim>\<open>success\<close> only; \<^verbatim>\<open>is_duplicate\<close> chooses between two log lines. With \<^verbatim>\<open>success\<close> true, for a
  duplicate as for a new invoice, the success metrics call follows; when it returns, the
  trace ends there, with no failure path and no error file; when it raises, the failure
  path runs with that exception. With \<^verbatim>\<open>success\<close> false the failure path runs with a
  \<^verbatim>\<open>RuntimeError\<close> whose text is \<^verbatim>\<open>BigQuery write failed: \<close> followed by the result's
  \<^verbatim>\<open>error\<close>, and the one metrics call of the attempt carries that text. The handler
  returns in every case.
\<close>

theorem write_result_routing:
  assumes "get_config cb = Inr cfg" and "GCPBigQueryAdapter cb (project_id cfg) = None"
    and "decode_message_data cb ev = Inr raw" and "message_model_validate cb raw = Inr m"
    and "invoice_model_validate cb (msg_extracted_data m) = Inr invoice"
    and "write_invoice_to_bigquery cb (write_args_of cfg m invoice (msg_source_file m)) = Inr res"
  shows "outcome_of cb ev = Returned \<and>
         (wr_success res \<and>
          write_extraction_metrics cb
            (success_metrics_args cfg m (inv_invoice_id invoice) (msg_source_file m)) = None \<longrightarrow>
            trace_of cb ev =
              validated_prefix raw m invoice @
              [WriteInvoice (write_args_of cfg m invoice (msg_source_file m)) (Inr res),
               WriteMetrics
                 (success_metrics_args cfg m (inv_invoice_id invoice) (msg_source_file m)) None,
               Log LogInfo (if wr_is_duplicate res then ''Duplicate invoice - no action taken''
                            else ''Invoice persisted to BigQuery'')] \<and>
            filter is_NewStorage (trace_of cb ev) = [] \<and>
            artifacts (trace_of cb ev) = []) \<and>
         (wr_success res \<and>
          write_extraction_metrics cb
            (success_metrics_args cfg m (inv_invoice_id invoice) (msg_source_file m)) = Some e \<longrightarrow>
            trace_of cb ev =
              validated_prefix raw m invoice @
              [WriteInvoice (write_args_of cfg m invoice (msg_source_file m)) (Inr res),
               WriteMetrics
                 (success_metrics_args cfg m (inv_invoice_id invoice) (msg_source_file m)) (Some e)] @
              except_block cb cfg e (locals_after_invoice raw m invoice)) \<and>
         (\<not> wr_success res \<longrightarrow>
            trace_of cb ev =
              validated_prefix raw m invoice @
              [WriteInvoice (write_args_of cfg m invoice (msg_source_file m)) (Inr res),
               Log LogError ''BigQuery write failed''] @
              except_block cb cfg
                (RuntimeError (''BigQuery write failed: '' @ format_optional (wr_error res)))
                (locals_after_invoice raw m invoice) \<and>
            (\<exists>a r. metrics_calls (trace_of cb ev) = [(a, r)] \<and> \<not> ma_success a \<and>
                   ma_error_message a =
                     Some (''BigQuery write failed: '' @ format_optional (wr_error res))))"
proof -
  note tv = try_block_validated[OF assms(3) assms(4) assms(5), of cfg]
  let ?w = "write_args_of cfg m invoice (msg_source_file m)"
  let ?s = "success_metrics_args cfg m (inv_invoice_id invoice) (msg_source_file m)"
  let ?l = "locals_after_invoice raw m invoice"
  have p1: "outcome_of cb ev = Returned"
    using trace_after_setup[OF assms(1) assms(2), of ev] by (cases "try_block cb cfg ev") auto
  have p2: "trace_of cb ev =
              validated_prefix raw m invoice @
              [WriteInvoice ?w (Inr res), WriteMetrics ?s None,
               Log LogInfo (if wr_is_duplicate res then ''Duplicate invoice - no action taken''
                            else ''Invoice persisted to BigQuery'')] \<and>
            filter is_NewStorage (trace_of cb ev) = [] \<and>
            artifacts (trace_of cb ev) = []"
    if "wr_success res \<and> write_extraction_metrics cb ?s = None"
  proof -
    from that have "persist_and_record cb cfg m invoice =
        (None, [WriteInvoice ?w (Inr res), WriteMetrics ?s None,
               Log LogInfo (if wr_is_duplicate res then ''Duplicate invoice - no action taken''
                            else ''Invoice persisted to BigQuery'')])"
      using persist_and_record_done[OF assms(6)] by simp
    with tv have "try_block cb cfg ev = (None, ?l, validated_prefix raw m invoice @
              [WriteInvoice ?w (Inr res), WriteMetrics ?s None,
               Log LogInfo (if wr_is_duplicate res then ''Duplicate invoice - no action taken''
                            else ''Invoice persisted to BigQuery'')])"
      by simp
    from trace_after_setup[OF assms(1) assms(2) this]
    show ?thesis by (simp add: validated_prefix_def)
  qed
  have p3: "trace_of cb ev =
              validated_prefix raw m invoice @
              [WriteInvoice ?w (Inr res), WriteMetrics ?s (Some e)] @ except_block cb cfg e ?l"
    if "wr_success res \<and> write_extraction_metrics cb ?s = Some e"
  proof -
    from that have "persist_and_record cb cfg m invoice =
        (Some e, [WriteInvoice ?w (Inr res), WriteMetrics ?s (Some e)])"
      using persist_and_record_metrics_raise[OF assms(6)] by simp
    with tv have "try_block cb cfg ev = (Some e, ?l, validated_prefix raw m invoice @
              [WriteInvoice ?w (Inr res), WriteMetrics ?s (Some e)])"
      by simp
    from trace_after_setup[OF assms(1) assms(2) this]
    show ?thesis by simp
  qed
  have p4: "trace_of cb ev =
              validated_prefix raw m invoice @
              [WriteInvoice ?w (Inr res), Log LogError ''BigQuery write failed''] @
              except_block cb cfg
                (RuntimeError (''BigQuery write failed: '' @ format_optional (wr_error res))) ?l \<and>
            (\<exists>a r. metrics_calls (trace_of cb ev) = [(a, r)] \<and> \<not> ma_success a \<and>
                   ma_error_message a =
                     Some (''BigQuery write failed: '' @ format_optional (wr_error res)))"
    if "\<not> wr_success res"
  proof -
    let ?e = "RuntimeError (''BigQuery write failed: '' @ format_optional (wr_error res))"
    from that have "persist_and_record cb cfg m invoice =
        (Some ?e, [WriteInvoice ?w (Inr res), Log LogError ''BigQuery write failed''])"
      using persist_and_record_failed[OF assms(6)] by simp
    with tv have "try_block cb cfg ev = (Some ?e, ?l, validated_prefix raw m invoice @
              [WriteInvoice ?w (Inr res), Log LogError ''BigQuery write failed''])"
      by simp
    from trace_after_setup[OF assms(1) assms(2) this]
    have t: "trace_of cb ev = validated_prefix raw m invoice @
              [WriteInvoice ?w (Inr res), Log LogError ''BigQuery write failed''] @
              except_block cb cfg ?e ?l"
      by simp
    have "metrics_calls (trace_of cb ev) =
            [(failure_metrics_args cfg ?e ?l,
              write_extraction_metrics cb (failure_metrics_args cfg ?e ?l))]"
      by (simp add: t metrics_calls_append metrics_calls_except_block validated_prefix_def)
    moreover have "\<not> ma_success (failure_metrics_args cfg ?e ?l) \<and>
        ma_error_message (failure_metrics_args cfg ?e ?l) =
          Some (''BigQuery write failed: '' @ format_optional (wr_error res))"
      by (simp add: failure_metrics_args_def RuntimeError_def)
    ultimately show ?thesis using t by blast
  qed
  from p1 p2 p3 p4 show ?thesis by blast
qed

text \<open>
  Claim C5 as stated fails: a duplicate never leads to the failure path or to an error
  artifact. The persister reports a duplicate (\<^verbatim>\<open>success\<close> and \<^verbatim>\<open>is_duplicate\<close> true), the
  success metrics call raises, and the failure path runs: a second metrics call with
  \<^verbatim>\<open>success=False\<close> is made and an error file is written for the duplicate.
\<close>

theorem duplicate_with_metrics_down_is_quarantined:
  "write_invoice_to_bigquery duplicate_metrics_down
     (write_args_of sample_config sample_message sample_invoice (msg_source_file sample_message)) =
     Inr duplicate_result \<and>
   wr_success duplicate_result \<and> wr_is_duplicate duplicate_result \<and>
   map (\<lambda>c. ma_success (fst c)) (metrics_calls (trace_of duplicate_metrics_down sample_event)) =
     [True, False] \<and>
   artifacts (trace_of duplicate_metrics_down sample_event) =
     [(''ubereats_INV-UE-123.error.json'', ''{}'')]"
proof -
  have k: "generate_error_filename ''gs://bucket/landing/ubereats_INV-UE-123_page2.tiff''
             ''INV-UE-123'' sample_clock = ''ubereats_INV-UE-123.error.json''"
    by code_simp
  show ?thesis
    by (simp add: trace_of_def handle_invoice_extracted_def try_block_def persist_and_record_def
      except_block_def write_failure_to_bucket_def Let_def duplicate_metrics_down_def all_ok_def
      duplicate_result_def success_metrics_args_def failure_metrics_args_def sample_message_def
      sample_invoice_def k)
qed

theorem write_result_routing_witness:
  "write_invoice_to_bigquery duplicate_invoice sample_write_args = Inr duplicate_result \<and>
   wr_success duplicate_result \<and> wr_is_duplicate duplicate_result \<and>
   write_extraction_metrics duplicate_invoice sample_success_metrics = None \<and>
   outcome_of duplicate_invoice sample_event = Returned \<and>
   filter is_NewStorage (trace_of duplicate_invoice sample_event) = [] \<and>
   artifacts (trace_of duplicate_invoice sample_event) = [] \<and>
   write_invoice_to_bigquery persister_fails sample_write_args = Inr failed_result \<and>
   \<not> wr_success failed_result \<and>
   (\<exists>a r. metrics_calls (trace_of persister_fails sample_event) = [(a, r)] \<and> \<not> ma_success a \<and>
          ma_error_message a = Some ''BigQuery write failed: quota exceeded'') \<and>
   write_extraction_metrics duplicate_metrics_down sample_success_metrics = Some metrics_error \<and>
   trace_of duplicate_metrics_down sample_event =
     validated_prefix (JObj []) sample_message sample_invoice @
     [WriteInvoice sample_write_args (Inr duplicate_result),
      WriteMetrics sample_success_metrics (Some metrics_error)] @
     except_block duplicate_metrics_down sample_config metrics_error
       (locals_after_invoice (JObj []) sample_message sample_invoice)"
proof -
  have d: "get_config duplicate_invoice = Inr sample_config"
    "GCPBigQueryAdapter duplicate_invoice (project_id sample_config) = None"
    "decode_message_data duplicate_invoice sample_event = Inr (JObj [])"
    "message_model_validate duplicate_invoice (JObj []) = Inr sample_message"
    "invoice_model_validate duplicate_invoice (msg_extracted_data sample_message) = Inr sample_invoice"
    "write_invoice_to_bigquery duplicate_invoice
       (write_args_of sample_config sample_message sample_invoice (msg_source_file sample_message)) =
     Inr duplicate_result"
    by (simp_all add: duplicate_invoice_def all_ok_def)
  have f: "get_config persister_fails = Inr sample_config"
    "GCPBigQueryAdapter persister_fails (project_id sample_config) = None"
    "decode_message_data persister_fails sample_event = Inr (JObj [])"
    "message_model_validate persister_fails (JObj []) = Inr sample_message"
    "invoice_model_validate persister_fails (msg_extracted_data sample_message) = Inr sample_invoice"
    "write_invoice_to_bigquery persister_fails
       (write_args_of sample_config sample_message sample_invoice (msg_source_file sample_message)) =
     Inr failed_result"
    by (simp_all add: persister_fails_def all_ok_def)
  have g: "get_config duplicate_metrics_down = Inr sample_config"
    "GCPBigQueryAdapter duplicate_metrics_down (project_id sample_config) = None"
    "decode_message_data duplicate_metrics_down sample_event = Inr (JObj [])"
    "message_model_validate duplicate_metrics_down (JObj []) = Inr sample_message"
    "invoice_model_validate duplicate_metrics_down (msg_extracted_data sample_message) =
     Inr sample_invoice"
    "write_invoice_to_bigquery duplicate_metrics_down
       (write_args_of sample_config sample_message sample_invoice (msg_source_file sample_message)) =
     Inr duplicate_result"
    by (simp_all add: duplicate_metrics_down_def all_ok_def)
  have h1: "wr_success duplicate_result \<and> wr_is_duplicate duplicate_result"
    by (simp add: duplicate_result_def)
  have h2: "write_extraction_metrics duplicate_invoice sample_success_metrics = None"
    by (simp add: duplicate_invoice_def all_ok_def)
  have h3: "\<not> wr_success failed_result" and h4: "wr_error failed_result = Some ''quota exceeded''"
    by (simp_all add: failed_result_def)
  have h5: "write_extraction_metrics duplicate_metrics_down sample_success_metrics = Some metrics_error"
    by (simp add: duplicate_metrics_down_def all_ok_def)
  note a = write_result_routing[OF d, of metrics_error]
  note b = write_result_routing[OF f, of metrics_error]
  note c = write_result_routing[OF g, of metrics_error]
  from a have r1: "outcome_of duplicate_invoice sample_event = Returned" by blast
  from a h1 h2 have r2: "filter is_NewStorage (trace_of duplicate_invoice sample_event) = [] \<and>
                         artifacts (trace_of duplicate_invoice sample_event) = []"
    unfolding sample_success_metrics_def by blast
  from b h3 have "\<exists>a r. metrics_calls (trace_of persister_fails sample_event) = [(a, r)] \<and>
          \<not> ma_success a \<and>
          ma_error_message a =
            Some (''BigQuery write failed: '' @ format_optional (wr_error failed_result))"
    by blast
  then have r3: "\<exists>a r. metrics_calls (trace_of persister_fails sample_event) = [(a, r)] \<and>
          \<not> ma_success a \<and> ma_error_message a = Some ''BigQuery write failed: quota exceeded''"
    by (simp add: h4)
  from c h1 h5 have r4: "trace_of duplicate_metrics_down sample_event =
     validated_prefix (JObj []) sample_message sample_invoice @
     [WriteInvoice sample_write_args (Inr duplicate_result),
      WriteMetrics sample_success_metrics (Some metrics_error)] @
     except_block duplicate_metrics_down sample_config metrics_error
       (locals_after_invoice (JObj []) sample_message sample_invoice)"
    unfolding sample_success_metrics_def sample_write_args_def by blast
  from d(6) f(6) h1 h2 h3 h5 r1 r2 r3 r4 show ?thesis
    unfolding sample_write_args_def by blast
qed



end
